theory Spec2Isabelle
  imports Complex_Main
begin

section \<open>Data model of \<^verbatim>\<open>main_system.py\<close>\<close>

text \<open>
  The four string enumerations of the source. Every member's value is a non-empty
  string, so every member is truthy in Python.
\<close>

datatype UserRole = ADMIN | AGENT | CUSTOMER | PROVIDER

datatype PolicyStatus = ACTIVE | PENDING | EXPIRED | CANCELLED

datatype ClaimStatus = SUBMITTED | UNDER_REVIEW | APPROVED | REJECTED | PAID

datatype PlanType = BASIC | STANDARD | PREMIUM | ENTERPRISE

text \<open>
  What an endpoint can raise: the \<^verbatim>\<open>HTTPException(status_code, detail)\<close> of the
  handlers and dependencies; the \<^verbatim>\<open>IntegrityError\<close> of a commit that breaks a
  \<^verbatim>\<open>unique=True\<close> column; the \<^verbatim>\<open>OverflowError\<close> of date arithmetic that leaves
  the range of \<^verbatim>\<open>datetime\<close>, and of an integer that does not fit the database's
  64-bit integers; and \<open>MapperError\<close>, the ORM's refusal to configure the mapped
  classes (\<^verbatim>\<open>AmbiguousForeignKeysError\<close> at the first attempt,
  \<^verbatim>\<open>InvalidRequestError\<close> at every later one). All but the first reach the client
  as an internal error, status 500.
\<close>

datatype error = HTTPException nat string | IntegrityError | OverflowError | MapperError

subsection \<open>Floats\<close>

text \<open>
  A Python \<^verbatim>\<open>float\<close>, as far as the handlers use one: they store it and compare it
  for equality, and never compute with it. The request models accept the infinities, and
  where no bound is declared also \<^verbatim>\<open>nan\<close>. The database stores \<^verbatim>\<open>nan\<close> as
  \<^verbatim>\<open>NULL\<close>: \<open>store_float\<close> is what a nullable \<^verbatim>\<open>Float\<close> column holds once a
  float was written to it.
\<close>

datatype pyfloat = Finite real | PosInf | NegInf | NaN

definition store_float :: "pyfloat \<Rightarrow> pyfloat option" where
  "store_float x = (if x = NaN then None else Some x)"

subsection \<open>Dates\<close>

text \<open>
  A (naive) Python \<^verbatim>\<open>datetime\<close> is kept as the pair Python itself computes with when
  it adds a \<^verbatim>\<open>timedelta\<close>: the proleptic Gregorian ordinal of its date (1 is
  0001-01-01) and the microseconds since midnight. The calendar functions below are the
  ones of the standard library's \<^verbatim>\<open>datetime.py\<close>; they give a date its ordinal and
  read an ordinal back as year, month and day.
\<close>

record datetime =
  toordinal :: int
  microsecond_of_day :: int

definition MAXORDINAL :: int where
  "MAXORDINAL = 3652059"

definition is_leap :: "int \<Rightarrow> bool" where
  "is_leap year = (year mod 4 = 0 \<and> (year mod 100 \<noteq> 0 \<or> year mod 400 = 0))"

definition days_before_year :: "int \<Rightarrow> int" where
  "days_before_year year =
     (let y = year - 1 in y * 365 + y div 4 - y div 100 + y div 400)"

definition DAYS_IN_MONTH :: "int list" where
  "DAYS_IN_MONTH = [-1, 31, 28, 31, 30, 31, 30, 31, 31, 30, 31, 30, 31]"

definition DAYS_BEFORE_MONTH :: "int list" where
  "DAYS_BEFORE_MONTH = [-1, 0, 31, 59, 90, 120, 151, 181, 212, 243, 273, 304, 334]"

definition days_in_month :: "int \<Rightarrow> int \<Rightarrow> int" where
  "days_in_month year month =
     (if month = 2 \<and> is_leap year then 29 else DAYS_IN_MONTH ! nat month)"

definition days_before_month :: "int \<Rightarrow> int \<Rightarrow> int" where
  "days_before_month year month =
     DAYS_BEFORE_MONTH ! nat month + (if month > 2 \<and> is_leap year then 1 else 0)"

text \<open>
  \<^verbatim>\<open>_ymd2ord\<close>; the source asserts \<open>1 \<le> month \<le> 12\<close> and
  \<open>1 \<le> day \<le> days_in_month year month\<close>, and it is used here on such dates only.
\<close>

definition ymd2ord :: "int \<Rightarrow> int \<Rightarrow> int \<Rightarrow> int" where
  "ymd2ord year month day = days_before_year year + days_before_month year month + day"

definition DI400Y :: int where "DI400Y = days_before_year 401"
definition DI100Y :: int where "DI100Y = days_before_year 101"
definition DI4Y :: int where "DI4Y = days_before_year 5"

text \<open>\<^verbatim>\<open>_ord2ymd\<close>, for ordinals from 1 on.\<close>

definition ord2ymd :: "int \<Rightarrow> int \<times> int \<times> int" where
  "ord2ymd n0 =
     (let n = n0 - 1;
          n400 = n div DI400Y; n = n mod DI400Y;
          year = n400 * 400 + 1;
          n100 = n div DI100Y; n = n mod DI100Y;
          n4 = n div DI4Y; n = n mod DI4Y;
          n1 = n div 365; n = n mod 365;
          year = year + n100 * 100 + n4 * 4 + n1
      in if n1 = 4 \<or> n100 = 4 then (year - 1, 12, 31)
         else
           let leapyear = (n1 = 3 \<and> (n4 \<noteq> 24 \<or> n100 = 3));
               month = (n + 50) div 32;
               preceding = DAYS_BEFORE_MONTH ! nat month
                            + (if month > 2 \<and> leapyear then 1 else 0)
           in if preceding > n
              then
                let month = month - 1;
                    preceding = preceding
                      - (DAYS_IN_MONTH ! nat month + (if month = 2 \<and> leapyear then 1 else 0))
                in (year, month, n - preceding + 1)
              else (year, month, n - preceding + 1))"

text \<open>
  \<^verbatim>\<open>d + timedelta(days=n)\<close>: the time of day is kept, the ordinal moves by \<open>n\<close>, and
  a result outside \<open>1 .. MAXORDINAL\<close> raises \<^verbatim>\<open>OverflowError\<close>.
\<close>

definition add_days :: "datetime \<Rightarrow> int \<Rightarrow> error + datetime" where
  "add_days d n =
     (let days = toordinal d + n
      in if 0 < days \<and> days \<le> MAXORDINAL then Inr (d\<lparr>toordinal := days\<rparr>)
         else Inl OverflowError)"

subsection \<open>Tables\<close>

text \<open>
  One record per SQLAlchemy model, one field per column, named \<open>Model_column\<close>.
  A nullable column that a handler may leave or set \<^verbatim>\<open>NULL\<close> is an option. A
  \<^verbatim>\<open>Text\<close> column that holds JSON keeps the text, except
  \<open>Policy_beneficiaries\<close>, which keeps the list the text encodes.
\<close>

record User =
  User_id :: int
  User_email :: string
  User_username :: string
  User_hashed_password :: string
  User_full_name :: "string option"
  User_phone :: "string option"
  User_address :: "string option"
  User_role :: UserRole
  User_is_active :: bool
  User_created_at :: datetime
  User_updated_at :: datetime

record InsurancePlan =
  InsurancePlan_id :: int
  InsurancePlan_name :: string
  InsurancePlan_plan_type :: PlanType
  InsurancePlan_description :: "string option"
  InsurancePlan_monthly_premium :: pyfloat
  InsurancePlan_annual_premium :: pyfloat
  InsurancePlan_coverage_amount :: pyfloat
  InsurancePlan_deductible :: pyfloat
  InsurancePlan_copay_percentage :: pyfloat
  InsurancePlan_max_out_of_pocket :: "pyfloat option"
  InsurancePlan_benefits :: "string option"
  InsurancePlan_exclusions :: "string option"
  InsurancePlan_is_active :: bool
  InsurancePlan_created_at :: datetime

record Policy =
  Policy_id :: int
  Policy_policy_number :: string
  Policy_user_id :: int
  Policy_plan_id :: int
  Policy_start_date :: datetime
  Policy_end_date :: datetime
  Policy_status :: PolicyStatus
  Policy_premium_amount :: pyfloat
  Policy_payment_frequency :: string
  Policy_beneficiaries :: "(string \<times> string) list list option"
  Policy_created_at :: datetime
  Policy_updated_at :: datetime

record Claim =
  Claim_id :: int
  Claim_claim_number :: string
  Claim_user_id :: int
  Claim_policy_id :: int
  Claim_claim_date :: datetime
  Claim_service_date :: datetime
  Claim_provider_name :: string
  Claim_diagnosis_code :: "string option"
  Claim_procedure_code :: "string option"
  Claim_claim_amount :: pyfloat
  Claim_approved_amount :: "pyfloat option"
  Claim_status :: ClaimStatus
  Claim_notes :: "string option"
  Claim_documents :: "string option"
  Claim_reviewed_by :: "int option"
  Claim_review_date :: "datetime option"
  Claim_created_at :: datetime
  Claim_updated_at :: datetime

record Payment =
  Payment_id :: int
  Payment_payment_reference :: string
  Payment_user_id :: int
  Payment_policy_id :: int
  Payment_amount :: pyfloat
  Payment_payment_date :: datetime
  Payment_payment_method :: string
  Payment_transaction_id :: "string option"
  Payment_status :: string
  Payment_description :: "string option"
  Payment_created_at :: datetime

subsection \<open>The mapping of the classes\<close>

text \<open>
  The models declare their links twice: as \<^verbatim>\<open>ForeignKey\<close> columns and as
  \<^verbatim>\<open>relationship\<close> attributes. The ORM joins the two when it configures the mapped
  classes, at the first query of the process: for every relationship it collects the
  foreign keys that link the two tables, in either direction, keeps those the
  relationship names in \<^verbatim>\<open>foreign_keys\<close> when it names any, and refuses the whole
  mapping unless exactly one is left. \<open>ForeignKeys\<close> and \<open>relationships\<close> are
  the declarations of the source, in its order.
\<close>

datatype model = UserModel | InsurancePlanModel | PolicyModel | ClaimModel | PaymentModel

record foreign_key =
  fk_model :: model
  fk_column :: string
  fk_target :: model

record relationship =
  rel_model :: model
  rel_attribute :: string
  rel_target :: model
  rel_foreign_keys :: "(model \<times> string) list option"

definition ForeignKeys :: "foreign_key list" where
  "ForeignKeys =
     [\<lparr>fk_model = PolicyModel, fk_column = ''user_id'', fk_target = UserModel\<rparr>,
      \<lparr>fk_model = PolicyModel, fk_column = ''plan_id'', fk_target = InsurancePlanModel\<rparr>,
      \<lparr>fk_model = ClaimModel, fk_column = ''user_id'', fk_target = UserModel\<rparr>,
      \<lparr>fk_model = ClaimModel, fk_column = ''policy_id'', fk_target = PolicyModel\<rparr>,
      \<lparr>fk_model = ClaimModel, fk_column = ''reviewed_by'', fk_target = UserModel\<rparr>,
      \<lparr>fk_model = PaymentModel, fk_column = ''user_id'', fk_target = UserModel\<rparr>,
      \<lparr>fk_model = PaymentModel, fk_column = ''policy_id'', fk_target = PolicyModel\<rparr>]"

definition relationships :: "relationship list" where
  "relationships =
     [\<lparr>rel_model = UserModel, rel_attribute = ''policies'', rel_target = PolicyModel,
        rel_foreign_keys = None\<rparr>,
      \<lparr>rel_model = UserModel, rel_attribute = ''claims'', rel_target = ClaimModel,
        rel_foreign_keys = None\<rparr>,
      \<lparr>rel_model = UserModel, rel_attribute = ''payments'', rel_target = PaymentModel,
        rel_foreign_keys = None\<rparr>,
      \<lparr>rel_model = InsurancePlanModel, rel_attribute = ''policies'',
        rel_target = PolicyModel, rel_foreign_keys = None\<rparr>,
      \<lparr>rel_model = PolicyModel, rel_attribute = ''user'', rel_target = UserModel,
        rel_foreign_keys = None\<rparr>,
      \<lparr>rel_model = PolicyModel, rel_attribute = ''plan'', rel_target = InsurancePlanModel,
        rel_foreign_keys = None\<rparr>,
      \<lparr>rel_model = PolicyModel, rel_attribute = ''claims'', rel_target = ClaimModel,
        rel_foreign_keys = None\<rparr>,
      \<lparr>rel_model = PolicyModel, rel_attribute = ''payments'', rel_target = PaymentModel,
        rel_foreign_keys = None\<rparr>,
      \<lparr>rel_model = ClaimModel, rel_attribute = ''user'', rel_target = UserModel,
        rel_foreign_keys = Some [(ClaimModel, ''user_id'')]\<rparr>,
      \<lparr>rel_model = ClaimModel, rel_attribute = ''policy'', rel_target = PolicyModel,
        rel_foreign_keys = None\<rparr>,
      \<lparr>rel_model = PaymentModel, rel_attribute = ''user'', rel_target = UserModel,
        rel_foreign_keys = None\<rparr>,
      \<lparr>rel_model = PaymentModel, rel_attribute = ''policy'', rel_target = PolicyModel,
        rel_foreign_keys = None\<rparr>]"

definition join_columns :: "relationship \<Rightarrow> foreign_key list" where
  "join_columns r =
     (let linking = filter
            (\<lambda>fk. (fk_model fk = rel_model r \<and> fk_target fk = rel_target r)
                  \<or> (fk_model fk = rel_target r \<and> fk_target fk = rel_model r))
            ForeignKeys
      in case rel_foreign_keys r of
           None \<Rightarrow> linking
         | Some named \<Rightarrow> filter (\<lambda>fk. (fk_model fk, fk_column fk) \<in> set named) linking)"

definition configure_mappers :: "relationship list \<Rightarrow> error + unit" where
  "configure_mappers rels =
     (if list_all (\<lambda>r. length (join_columns r) = 1) rels then Inr () else Inl MapperError)"

text \<open>
  The session the handlers reach through \<^verbatim>\<open>db\<close>: the relationships its queries
  configure, and the rows of each table. In the program every session is made by
  \<^verbatim>\<open>SessionLocal\<close> over the classes of the module, so its registry is
  \<open>relationships\<close>. The caller of an endpoint is handed over as the \<open>User\<close> row
  that the dependencies resolved, so the table of users itself is not needed.
\<close>

record database =
  registry :: "relationship list"
  plans :: "InsurancePlan list"
  policies :: "Policy list"
  claims :: "Claim list"
  payments :: "Payment list"

subsection \<open>Request bodies\<close>

text \<open>
  The pydantic models of the request bodies. The framework validates a body before the
  handler runs (\<open>claim_amount > 0\<close>, \<open>amount > 0\<close>), so a handler only ever sees a
  validated body.
\<close>

record PolicyCreate =
  PolicyCreate_plan_id :: int
  PolicyCreate_start_date :: datetime
  PolicyCreate_payment_frequency :: string
  PolicyCreate_beneficiaries :: "(string \<times> string) list list option"

record ClaimCreate =
  ClaimCreate_policy_id :: int
  ClaimCreate_service_date :: datetime
  ClaimCreate_provider_name :: string
  ClaimCreate_diagnosis_code :: "string option"
  ClaimCreate_procedure_code :: "string option"
  ClaimCreate_claim_amount :: pyfloat
  ClaimCreate_notes :: "string option"

record ClaimUpdate =
  ClaimUpdate_status :: "ClaimStatus option"
  ClaimUpdate_approved_amount :: "pyfloat option"
  ClaimUpdate_notes :: "string option"

record PaymentCreate =
  PaymentCreate_policy_id :: int
  PaymentCreate_amount :: pyfloat
  PaymentCreate_payment_method :: string
  PaymentCreate_transaction_id :: "string option"
  PaymentCreate_description :: "string option"

section \<open>The persistence layer\<close>

text \<open>
  The integer primary key a newly inserted row gets from the default (SQLite) backend:
  one more than the largest key in the table.
\<close>

definition next_id :: "int list \<Rightarrow> int" where
  "next_id ids = fold max ids 0 + 1"

text \<open>
  \<^verbatim>\<open>db.query(Model)\<close>: the first thing every handler does with the session. It
  configures the mapped classes, and raises when they do not configure.
\<close>

definition db_query :: "database \<Rightarrow> 'a list \<Rightarrow> error + 'a list" where
  "db_query db rows =
     (case configure_mappers (registry db) of Inl e \<Rightarrow> Inl e | Inr ok \<Rightarrow> Inr rows)"

text \<open>
  An integer of a request that a statement binds must fit the 64-bit integers of the
  default (SQLite) backend; the driver raises \<^verbatim>\<open>OverflowError\<close> otherwise.
\<close>

definition fits_int64 :: "int \<Rightarrow> bool" where
  "fits_int64 k = (- (2 ^ 63) \<le> k \<and> k < 2 ^ 63)"

definition bind_integer :: "int \<Rightarrow> error + int" where
  "bind_integer k = (if fits_int64 k then Inr k else Inl OverflowError)"

text \<open>
  \<^verbatim>\<open>.filter(Model.id == k).first()\<close> on the rows of a query.
\<close>

definition first_by_id :: "('a \<Rightarrow> int) \<Rightarrow> int \<Rightarrow> 'a list \<Rightarrow> error + 'a option" where
  "first_by_id key k rows =
     (case bind_integer k of
        Inl e \<Rightarrow> Inl e
      | Inr k \<Rightarrow> Inr (find (\<lambda>row. key row = k) rows))"

text \<open>
  \<^verbatim>\<open>.offset(skip).limit(limit).all()\<close> as the default backend runs it: the rows come
  in the order of their keys, a negative offset skips nothing and a negative limit is no
  limit.
\<close>

definition offset_limit :: "('a \<Rightarrow> int) \<Rightarrow> int \<Rightarrow> int \<Rightarrow> 'a list \<Rightarrow> error + 'a list" where
  "offset_limit key skip limit rows =
     (case bind_integer limit of
        Inl e \<Rightarrow> Inl e
      | Inr limit \<Rightarrow>
          (case bind_integer skip of
             Inl e \<Rightarrow> Inl e
           | Inr skip \<Rightarrow>
               let rest = drop (nat skip) (sort_key key rows)
               in Inr (if limit < 0 then rest else take (nat limit) rest)))"

text \<open>
  \<^verbatim>\<open>db.add(row); db.commit(); db.refresh(row)\<close>: the row gets its key; the commit
  raises when the row's \<^verbatim>\<open>unique=True\<close> column repeats a stored value, and then
  nothing is stored.
\<close>

definition add_policy :: "database \<Rightarrow> Policy \<Rightarrow> error + (database \<times> Policy)" where
  "add_policy db row =
     (if Policy_policy_number row \<in> set (map Policy_policy_number (policies db))
      then Inl IntegrityError
      else
        let row = row\<lparr>Policy_id := next_id (map Policy_id (policies db))\<rparr>
        in Inr (db\<lparr>policies := policies db @ [row]\<rparr>, row))"

definition add_claim :: "database \<Rightarrow> Claim \<Rightarrow> error + (database \<times> Claim)" where
  "add_claim db row =
     (if Claim_claim_number row \<in> set (map Claim_claim_number (claims db))
      then Inl IntegrityError
      else
        let row = row\<lparr>Claim_id := next_id (map Claim_id (claims db))\<rparr>
        in Inr (db\<lparr>claims := claims db @ [row]\<rparr>, row))"

definition add_payment :: "database \<Rightarrow> Payment \<Rightarrow> error + (database \<times> Payment)" where
  "add_payment db row =
     (if Payment_payment_reference row \<in> set (map Payment_payment_reference (payments db))
      then Inl IntegrityError
      else
        let row = row\<lparr>Payment_id := next_id (map Payment_id (payments db))\<rparr>
        in Inr (db\<lparr>payments := payments db @ [row]\<rparr>, row))"

section \<open>Dependencies and endpoints\<close>

text \<open>
  An endpoint is its dependency, run on the caller, followed by the handler's body. Each
  body starts with a \<^verbatim>\<open>db.query\<close>, so each fails with \<open>MapperError\<close> where the
  registry of the session does not configure.
\<close>

definition get_current_active_user :: "User \<Rightarrow> error + User" where
  "get_current_active_user current_user =
     (if \<not> User_is_active current_user then Inl (HTTPException 400 ''Inactive user'')
      else Inr current_user)"

definition check_admin :: "User \<Rightarrow> error + User" where
  "check_admin current_user =
     (case get_current_active_user current_user of
        Inl e \<Rightarrow> Inl e
      | Inr current_user \<Rightarrow>
          if User_role current_user \<noteq> ADMIN
          then Inl (HTTPException 403 ''Not enough permissions'')
          else Inr current_user)"

text \<open>
  \<^verbatim>\<open>GET /plans\<close>: the catalogue lists the active plans only. It has no dependency
  on the caller.
\<close>

definition get_plans :: "int \<Rightarrow> int \<Rightarrow> database \<Rightarrow> error + InsurancePlan list" where
  "get_plans skip limit db =
     (case db_query db (plans db) of
        Inl e \<Rightarrow> Inl e
      | Inr query \<Rightarrow>
          offset_limit InsurancePlan_id skip limit
            (filter (\<lambda>pl. InsurancePlan_is_active pl = True) query))"

text \<open>
  \<^verbatim>\<open>POST /policies\<close>. \<open>number\<close> is what \<^verbatim>\<open>generate_policy_number()\<close> drew and
  \<open>now\<close> what the clock reads when the row is inserted: the defaults of the time
  columns read the clock within the one insert, and the model gives them one reading,
  here and in the other two inserting handlers.
\<close>

definition create_policy ::
  "PolicyCreate \<Rightarrow> database \<Rightarrow> User \<Rightarrow> string \<Rightarrow> datetime \<Rightarrow> error + (database \<times> Policy)"
where
  "create_policy policy db current_user number now =
     (case get_current_active_user current_user of
        Inl e \<Rightarrow> Inl e
      | Inr current_user \<Rightarrow>
     (case db_query db (plans db) of
        Inl e \<Rightarrow> Inl e
      | Inr query \<Rightarrow>
     (case first_by_id InsurancePlan_id (PolicyCreate_plan_id policy) query of
        Inl e \<Rightarrow> Inl e
      | Inr None \<Rightarrow> Inl (HTTPException 404 ''Insurance plan not found'')
      | Inr (Some plan) \<Rightarrow>
     (case add_days (PolicyCreate_start_date policy) 365 of
        Inl e \<Rightarrow> Inl e
      | Inr end_date \<Rightarrow>
          let premium_amount =
                (if PolicyCreate_payment_frequency policy = ''monthly''
                 then InsurancePlan_monthly_premium plan
                 else InsurancePlan_annual_premium plan);
              db_policy = \<lparr>
                Policy_id = 0,
                Policy_policy_number = number,
                Policy_user_id = User_id current_user,
                Policy_plan_id = PolicyCreate_plan_id policy,
                Policy_start_date = PolicyCreate_start_date policy,
                Policy_end_date = end_date,
                Policy_status = PENDING,
                Policy_premium_amount = premium_amount,
                Policy_payment_frequency = PolicyCreate_payment_frequency policy,
                Policy_beneficiaries =
                  (case PolicyCreate_beneficiaries policy of
                     None \<Rightarrow> None
                   | Some bs \<Rightarrow> if bs = [] then None else Some bs),
                Policy_created_at = now,
                Policy_updated_at = now\<rparr>
          in add_policy db db_policy))))"

text \<open>
  \<^verbatim>\<open>GET /policies\<close>, \<^verbatim>\<open>GET /claims\<close>, \<^verbatim>\<open>GET /payments\<close>.
\<close>

definition get_policies :: "int \<Rightarrow> int \<Rightarrow> database \<Rightarrow> User \<Rightarrow> error + Policy list" where
  "get_policies skip limit db current_user =
     (case get_current_active_user current_user of
        Inl e \<Rightarrow> Inl e
      | Inr current_user \<Rightarrow>
     (case db_query db (policies db) of
        Inl e \<Rightarrow> Inl e
      | Inr query \<Rightarrow>
          if User_role current_user = ADMIN
          then offset_limit Policy_id skip limit query
          else offset_limit Policy_id skip limit
                 (filter (\<lambda>p. Policy_user_id p = User_id current_user) query)))"

definition get_claims ::
  "int \<Rightarrow> int \<Rightarrow> ClaimStatus option \<Rightarrow> database \<Rightarrow> User \<Rightarrow> error + Claim list"
where
  "get_claims skip limit status db current_user =
     (case get_current_active_user current_user of
        Inl e \<Rightarrow> Inl e
      | Inr current_user \<Rightarrow>
     (case db_query db (claims db) of
        Inl e \<Rightarrow> Inl e
      | Inr query \<Rightarrow>
          let query = (if User_role current_user \<noteq> ADMIN
                       then filter (\<lambda>c. Claim_user_id c = User_id current_user) query
                       else query);
              query = (case status of
                         None \<Rightarrow> query
                       | Some s \<Rightarrow> filter (\<lambda>c. Claim_status c = s) query)
          in offset_limit Claim_id skip limit query))"

definition get_payments :: "int \<Rightarrow> int \<Rightarrow> database \<Rightarrow> User \<Rightarrow> error + Payment list" where
  "get_payments skip limit db current_user =
     (case get_current_active_user current_user of
        Inl e \<Rightarrow> Inl e
      | Inr current_user \<Rightarrow>
     (case db_query db (payments db) of
        Inl e \<Rightarrow> Inl e
      | Inr query \<Rightarrow>
          if User_role current_user = ADMIN
          then offset_limit Payment_id skip limit query
          else offset_limit Payment_id skip limit
                 (filter (\<lambda>p. Payment_user_id p = User_id current_user) query)))"

text \<open>
  \<^verbatim>\<open>PATCH /policies/{policy_id}/activate\<close>. The handler assigns the status without
  looking at the current one. The commit is an \<^verbatim>\<open>UPDATE\<close> of the assigned column
  where the key matches; it writes the row, and \<^verbatim>\<open>onupdate\<close> stamps
  \<open>updated_at\<close> with the clock's reading \<open>now\<close>, only when the assignment changed
  the loaded value. The handler returns the row as refreshed from the database.
  \<open>assign_active\<close> is what the assignment and the commit do to a row.
\<close>

definition assign_active :: "datetime \<Rightarrow> Policy \<Rightarrow> Policy" where
  "assign_active now row = row\<lparr>
     Policy_status := ACTIVE,
     Policy_updated_at :=
       (if Policy_status row = ACTIVE then Policy_updated_at row else now)\<rparr>"

definition activate_policy ::
  "int \<Rightarrow> database \<Rightarrow> User \<Rightarrow> datetime \<Rightarrow> error + (database \<times> Policy)"
where
  "activate_policy policy_id db current_user now =
     (case check_admin current_user of
        Inl e \<Rightarrow> Inl e
      | Inr current_user \<Rightarrow>
     (case db_query db (policies db) of
        Inl e \<Rightarrow> Inl e
      | Inr query \<Rightarrow>
     (case first_by_id Policy_id policy_id query of
        Inl e \<Rightarrow> Inl e
      | Inr None \<Rightarrow> Inl (HTTPException 404 ''Policy not found'')
      | Inr (Some policy) \<Rightarrow>
          Inr (db\<lparr>policies :=
                 map (\<lambda>p. if Policy_id p = policy_id then assign_active now p else p)
                   (policies db)\<rparr>,
               assign_active now policy))))"

text \<open>
  \<^verbatim>\<open>POST /claims\<close>. \<open>number\<close> is what \<^verbatim>\<open>generate_claim_number()\<close> drew. The
  ownership check comes before the status check. The column default of the approved
  amount is 0.
\<close>

definition create_claim ::
  "ClaimCreate \<Rightarrow> database \<Rightarrow> User \<Rightarrow> string \<Rightarrow> datetime \<Rightarrow> error + (database \<times> Claim)"
where
  "create_claim claim db current_user number now =
     (case get_current_active_user current_user of
        Inl e \<Rightarrow> Inl e
      | Inr current_user \<Rightarrow>
     (case db_query db (policies db) of
        Inl e \<Rightarrow> Inl e
      | Inr query \<Rightarrow>
     (case first_by_id Policy_id (ClaimCreate_policy_id claim) query of
        Inl e \<Rightarrow> Inl e
      | Inr None \<Rightarrow> Inl (HTTPException 404 ''Policy not found'')
      | Inr (Some policy) \<Rightarrow>
          if Policy_user_id policy \<noteq> User_id current_user
             \<and> User_role current_user \<noteq> ADMIN
          then Inl (HTTPException 403 ''Not authorized to create claim for this policy'')
          else if Policy_status policy \<noteq> ACTIVE
          then Inl (HTTPException 400 ''Policy is not active'')
          else
            let db_claim = \<lparr>
                  Claim_id = 0,
                  Claim_claim_number = number,
                  Claim_user_id = User_id current_user,
                  Claim_policy_id = ClaimCreate_policy_id claim,
                  Claim_claim_date = now,
                  Claim_service_date = ClaimCreate_service_date claim,
                  Claim_provider_name = ClaimCreate_provider_name claim,
                  Claim_diagnosis_code = ClaimCreate_diagnosis_code claim,
                  Claim_procedure_code = ClaimCreate_procedure_code claim,
                  Claim_claim_amount = ClaimCreate_claim_amount claim,
                  Claim_approved_amount = Some (Finite 0),
                  Claim_status = SUBMITTED,
                  Claim_notes = ClaimCreate_notes claim,
                  Claim_documents = None,
                  Claim_reviewed_by = None,
                  Claim_review_date = None,
                  Claim_created_at = now,
                  Claim_updated_at = now\<rparr>
            in add_claim db db_claim)))"

text \<open>
  \<^verbatim>\<open>PATCH /claims/{claim_id}\<close>. The claim is looked up before the role is checked.
  A status in the body is always truthy; an approved amount counts when it is not
  \<^verbatim>\<open>None\<close>; notes count when they are a non-empty string. \<open>review_time\<close> and
  \<open>update_time\<close> are the handler's two readings of the clock.

  The commit is an \<^verbatim>\<open>UPDATE\<close> of the columns whose assigned value differs from the
  loaded one, where the key matches. \<open>claim_update_changes\<close> says whether an
  assignment other than that of \<open>updated_at\<close> differs (\<^verbatim>\<open>nan\<close> differs from
  everything). When the handler's \<open>update_time\<close> equals the loaded
  \<open>updated_at\<close>, that column is not among the changed ones, and if the
  \<^verbatim>\<open>UPDATE\<close> is issued for the others, \<^verbatim>\<open>onupdate\<close> stamps it with a third
  reading of the clock, \<open>onupdate_time\<close>. \<open>assign_claim_update\<close> is what the
  assignments and the commit do to a row; the handler returns the row as refreshed from
  the database.
\<close>

definition claim_update_changes :: "ClaimUpdate \<Rightarrow> User \<Rightarrow> datetime \<Rightarrow> Claim \<Rightarrow> bool" where
  "claim_update_changes claim_update current_user review_time row =
     ((case ClaimUpdate_status claim_update of
         None \<Rightarrow> False
       | Some s \<Rightarrow> s \<noteq> Claim_status row
                    \<or> Some (User_id current_user) \<noteq> Claim_reviewed_by row
                    \<or> Some review_time \<noteq> Claim_review_date row)
      \<or> (case ClaimUpdate_approved_amount claim_update of
            None \<Rightarrow> False
          | Some a \<Rightarrow> a = NaN \<or> Some a \<noteq> Claim_approved_amount row)
      \<or> (case ClaimUpdate_notes claim_update of
            None \<Rightarrow> False
          | Some n \<Rightarrow> n \<noteq> [] \<and> Some n \<noteq> Claim_notes row))"

definition assign_claim_update ::
  "ClaimUpdate \<Rightarrow> User \<Rightarrow> datetime \<Rightarrow> datetime \<Rightarrow> datetime \<Rightarrow> Claim \<Rightarrow> Claim"
where
  "assign_claim_update claim_update current_user review_time update_time onupdate_time row =
     (let changes = claim_update_changes claim_update current_user review_time row;
          loaded_updated_at = Claim_updated_at row;
          row = (case ClaimUpdate_status claim_update of
                   None \<Rightarrow> row
                 | Some s \<Rightarrow> row\<lparr>
                     Claim_status := s,
                     Claim_reviewed_by := Some (User_id current_user),
                     Claim_review_date := Some review_time\<rparr>);
          row = (case ClaimUpdate_approved_amount claim_update of
                   None \<Rightarrow> row
                 | Some a \<Rightarrow> row\<lparr>Claim_approved_amount := store_float a\<rparr>);
          row = (case ClaimUpdate_notes claim_update of
                   None \<Rightarrow> row
                 | Some n \<Rightarrow> if n = [] then row else row\<lparr>Claim_notes := Some n\<rparr>)
      in row\<lparr>Claim_updated_at :=
               (if update_time \<noteq> loaded_updated_at then update_time
                else if changes then onupdate_time
                else loaded_updated_at)\<rparr>)"

definition update_claim ::
  "int \<Rightarrow> ClaimUpdate \<Rightarrow> database \<Rightarrow> User \<Rightarrow> datetime \<Rightarrow> datetime \<Rightarrow> datetime
     \<Rightarrow> error + (database \<times> Claim)"
where
  "update_claim claim_id claim_update db current_user review_time update_time onupdate_time =
     (case get_current_active_user current_user of
        Inl e \<Rightarrow> Inl e
      | Inr current_user \<Rightarrow>
     (case db_query db (claims db) of
        Inl e \<Rightarrow> Inl e
      | Inr query \<Rightarrow>
     (case first_by_id Claim_id claim_id query of
        Inl e \<Rightarrow> Inl e
      | Inr None \<Rightarrow> Inl (HTTPException 404 ''Claim not found'')
      | Inr (Some claim) \<Rightarrow>
          if User_role current_user \<notin> set [ADMIN, AGENT]
          then Inl (HTTPException 403 ''Not authorized to update claims'')
          else
            Inr (db\<lparr>claims :=
                   map (\<lambda>c. if Claim_id c = claim_id
                            then assign_claim_update claim_update current_user
                                   review_time update_time onupdate_time c
                            else c)
                     (claims db)\<rparr>,
                 assign_claim_update claim_update current_user
                   review_time update_time onupdate_time claim))))"

text \<open>
  \<^verbatim>\<open>POST /payments\<close>. \<open>number\<close> is what \<^verbatim>\<open>generate_payment_reference()\<close> drew.
\<close>

definition create_payment ::
  "PaymentCreate \<Rightarrow> database \<Rightarrow> User \<Rightarrow> string \<Rightarrow> datetime
     \<Rightarrow> error + (database \<times> Payment)"
where
  "create_payment payment db current_user number now =
     (case get_current_active_user current_user of
        Inl e \<Rightarrow> Inl e
      | Inr current_user \<Rightarrow>
     (case db_query db (policies db) of
        Inl e \<Rightarrow> Inl e
      | Inr query \<Rightarrow>
     (case first_by_id Policy_id (PaymentCreate_policy_id payment) query of
        Inl e \<Rightarrow> Inl e
      | Inr None \<Rightarrow> Inl (HTTPException 404 ''Policy not found'')
      | Inr (Some policy) \<Rightarrow>
          if Policy_user_id policy \<noteq> User_id current_user
             \<and> User_role current_user \<noteq> ADMIN
          then Inl (HTTPException 403 ''Not authorized to make payment for this policy'')
          else
            let db_payment = \<lparr>
                  Payment_id = 0,
                  Payment_payment_reference = number,
                  Payment_user_id = User_id current_user,
                  Payment_policy_id = PaymentCreate_policy_id payment,
                  Payment_amount = PaymentCreate_amount payment,
                  Payment_payment_date = now,
                  Payment_payment_method = PaymentCreate_payment_method payment,
                  Payment_transaction_id = PaymentCreate_transaction_id payment,
                  Payment_status = ''completed'',
                  Payment_description = PaymentCreate_description payment,
                  Payment_created_at = now\<rparr>
            in add_payment db db_payment)))"

section \<open>The system as a sequence of requests\<close>

text \<open>
  The requests that write to the database. A request that raises commits nothing: the
  database stays as it was.
\<close>

datatype request =
    CreatePolicy PolicyCreate User string datetime
  | ActivatePolicy int User datetime
  | CreateClaim ClaimCreate User string datetime
  | UpdateClaim int ClaimUpdate User datetime datetime datetime
  | CreatePayment PaymentCreate User string datetime

definition committed :: "database \<Rightarrow> error + (database \<times> 'a) \<Rightarrow> database" where
  "committed db r = (case r of Inl e \<Rightarrow> db | Inr res \<Rightarrow> fst res)"

fun handle_request :: "database \<Rightarrow> request \<Rightarrow> database" where
  "handle_request db (CreatePolicy policy u number now) =
     committed db (create_policy policy db u number now)"
| "handle_request db (ActivatePolicy policy_id u now) =
     committed db (activate_policy policy_id db u now)"
| "handle_request db (CreateClaim claim u number now) =
     committed db (create_claim claim db u number now)"
| "handle_request db
       (UpdateClaim claim_id claim_update u review_time update_time onupdate_time) =
     committed db
       (update_claim claim_id claim_update db u review_time update_time onupdate_time)"
| "handle_request db (CreatePayment payment u number now) =
     committed db (create_payment payment db u number now)"

primrec serve :: "database \<Rightarrow> request list \<Rightarrow> database" where
  "serve db [] = db"
| "serve db (r # rs) = serve (handle_request db r) rs"

text \<open>
  Two policy rows that agree on every column but the status and the time of the last
  update.
\<close>

definition same_but_status :: "Policy \<Rightarrow> Policy \<Rightarrow> bool" where
  "same_but_status p q =
     (q = p\<lparr>Policy_status := Policy_status q, Policy_updated_at := Policy_updated_at q\<rparr>)"

section \<open>A small database for concrete runs\<close>

text \<open>
  A session of the program, with the registry of the module, and callers and requests
  for it.
\<close>

definition new_year_2024 :: datetime where
  "new_year_2024 = \<lparr>toordinal = ymd2ord 2024 1 1, microsecond_of_day = 0\<rparr>"

definition march_2024 :: datetime where
  "march_2024 = \<lparr>toordinal = ymd2ord 2024 3 15, microsecond_of_day = 43200000000\<rparr>"

definition admin_user :: User where
  "admin_user = \<lparr>
     User_id = 1, User_email = ''admin@acp-health.com'', User_username = ''admin'',
     User_hashed_password = ''h1'', User_full_name = Some ''System Administrator'',
     User_phone = None, User_address = None, User_role = ADMIN, User_is_active = True,
     User_created_at = new_year_2024, User_updated_at = new_year_2024\<rparr>"

definition customer_user :: User where
  "customer_user = \<lparr>
     User_id = 2, User_email = ''alice@example.com'', User_username = ''alice'',
     User_hashed_password = ''h2'', User_full_name = None,
     User_phone = None, User_address = None, User_role = CUSTOMER, User_is_active = True,
     User_created_at = new_year_2024, User_updated_at = new_year_2024\<rparr>"

definition agent_user :: User where
  "agent_user = \<lparr>
     User_id = 3, User_email = ''bob@example.com'', User_username = ''bob'',
     User_hashed_password = ''h3'', User_full_name = None,
     User_phone = None, User_address = None, User_role = AGENT, User_is_active = True,
     User_created_at = new_year_2024, User_updated_at = new_year_2024\<rparr>"

definition open_plan :: InsurancePlan where
  "open_plan = \<lparr>
     InsurancePlan_id = 1, InsurancePlan_name = ''Standard'',
     InsurancePlan_plan_type = STANDARD, InsurancePlan_description = None,
     InsurancePlan_monthly_premium = Finite 200,
     InsurancePlan_annual_premium = Finite 2200,
     InsurancePlan_coverage_amount = Finite 1000, InsurancePlan_deductible = Finite 0,
     InsurancePlan_copay_percentage = Finite 20, InsurancePlan_max_out_of_pocket = None,
     InsurancePlan_benefits = None, InsurancePlan_exclusions = None,
     InsurancePlan_is_active = True, InsurancePlan_created_at = new_year_2024\<rparr>"

definition closed_plan :: InsurancePlan where
  "closed_plan = \<lparr>
     InsurancePlan_id = 2, InsurancePlan_name = ''Legacy'',
     InsurancePlan_plan_type = BASIC, InsurancePlan_description = None,
     InsurancePlan_monthly_premium = Finite 90,
     InsurancePlan_annual_premium = Finite 1000,
     InsurancePlan_coverage_amount = Finite 500, InsurancePlan_deductible = Finite 0,
     InsurancePlan_copay_percentage = Finite 20, InsurancePlan_max_out_of_pocket = None,
     InsurancePlan_benefits = None, InsurancePlan_exclusions = None,
     InsurancePlan_is_active = False, InsurancePlan_created_at = new_year_2024\<rparr>"

definition pending_policy :: Policy where
  "pending_policy = \<lparr>
     Policy_id = 1, Policy_policy_number = ''POL0000000001'', Policy_user_id = 2,
     Policy_plan_id = 1, Policy_start_date = new_year_2024,
     Policy_end_date = \<lparr>toordinal = ymd2ord 2024 12 31, microsecond_of_day = 0\<rparr>,
     Policy_status = PENDING, Policy_premium_amount = Finite 200,
     Policy_payment_frequency = ''monthly'', Policy_beneficiaries = None,
     Policy_created_at = new_year_2024, Policy_updated_at = new_year_2024\<rparr>"

definition active_policy :: Policy where
  "active_policy = \<lparr>
     Policy_id = 2, Policy_policy_number = ''POL0000000002'', Policy_user_id = 2,
     Policy_plan_id = 1, Policy_start_date = new_year_2024,
     Policy_end_date = \<lparr>toordinal = ymd2ord 2024 12 31, microsecond_of_day = 0\<rparr>,
     Policy_status = ACTIVE, Policy_premium_amount = Finite 2200,
     Policy_payment_frequency = ''annual'', Policy_beneficiaries = None,
     Policy_created_at = new_year_2024, Policy_updated_at = new_year_2024\<rparr>"

definition agent_policy :: Policy where
  "agent_policy = \<lparr>
     Policy_id = 3, Policy_policy_number = ''POL0000000003'', Policy_user_id = 3,
     Policy_plan_id = 1, Policy_start_date = new_year_2024,
     Policy_end_date = \<lparr>toordinal = ymd2ord 2024 12 31, microsecond_of_day = 0\<rparr>,
     Policy_status = ACTIVE, Policy_premium_amount = Finite 200,
     Policy_payment_frequency = ''monthly'', Policy_beneficiaries = None,
     Policy_created_at = new_year_2024, Policy_updated_at = new_year_2024\<rparr>"

definition paid_claim :: Claim where
  "paid_claim = \<lparr>
     Claim_id = 1, Claim_claim_number = ''CLM0000000001'', Claim_user_id = 2,
     Claim_policy_id = 2, Claim_claim_date = new_year_2024,
     Claim_service_date = new_year_2024, Claim_provider_name = ''City Clinic'',
     Claim_diagnosis_code = None, Claim_procedure_code = None,
     Claim_claim_amount = Finite 500, Claim_approved_amount = Some (Finite 500),
     Claim_status = PAID,
     Claim_notes = None, Claim_documents = None, Claim_reviewed_by = Some 1,
     Claim_review_date = Some new_year_2024,
     Claim_created_at = new_year_2024, Claim_updated_at = new_year_2024\<rparr>"

definition agent_claim :: Claim where
  "agent_claim = \<lparr>
     Claim_id = 2, Claim_claim_number = ''CLM0000000002'', Claim_user_id = 3,
     Claim_policy_id = 3, Claim_claim_date = new_year_2024,
     Claim_service_date = new_year_2024, Claim_provider_name = ''City Clinic'',
     Claim_diagnosis_code = None, Claim_procedure_code = None,
     Claim_claim_amount = Finite 300, Claim_approved_amount = Some (Finite 0),
     Claim_status = SUBMITTED,
     Claim_notes = None, Claim_documents = None, Claim_reviewed_by = None,
     Claim_review_date = None,
     Claim_created_at = new_year_2024, Claim_updated_at = new_year_2024\<rparr>"

definition customer_payment :: Payment where
  "customer_payment = \<lparr>
     Payment_id = 1, Payment_payment_reference = ''PAY0000000001'', Payment_user_id = 2,
     Payment_policy_id = 2, Payment_amount = Finite 2200, Payment_payment_date = new_year_2024,
     Payment_payment_method = ''card'', Payment_transaction_id = None,
     Payment_status = ''completed'', Payment_description = None,
     Payment_created_at = new_year_2024\<rparr>"

definition agent_payment :: Payment where
  "agent_payment = \<lparr>
     Payment_id = 2, Payment_payment_reference = ''PAY0000000002'', Payment_user_id = 3,
     Payment_policy_id = 3, Payment_amount = Finite 200, Payment_payment_date = new_year_2024,
     Payment_payment_method = ''card'', Payment_transaction_id = None,
     Payment_status = ''completed'', Payment_description = None,
     Payment_created_at = new_year_2024\<rparr>"

definition sample_db :: database where
  "sample_db = \<lparr>
     registry = relationships,
     plans = [open_plan, closed_plan],
     policies = [pending_policy, active_policy, agent_policy],
     claims = [paid_claim, agent_claim],
     payments = [customer_payment, agent_payment]\<rparr>"

definition sample_claim :: ClaimCreate where
  "sample_claim = \<lparr>
     ClaimCreate_policy_id = 1, ClaimCreate_service_date = new_year_2024,
     ClaimCreate_provider_name = ''City Clinic'', ClaimCreate_diagnosis_code = None,
     ClaimCreate_procedure_code = None, ClaimCreate_claim_amount = Finite 500,
     ClaimCreate_notes = None\<rparr>"

definition sample_payment :: PaymentCreate where
  "sample_payment = \<lparr>
     PaymentCreate_policy_id = 2, PaymentCreate_amount = Finite 2200,
     PaymentCreate_payment_method = ''card'', PaymentCreate_transaction_id = None,
     PaymentCreate_description = None\<rparr>"

definition sample_policy :: PolicyCreate where
  "sample_policy = \<lparr>
     PolicyCreate_plan_id = 1, PolicyCreate_start_date = new_year_2024,
     PolicyCreate_payment_frequency = ''monthly'', PolicyCreate_beneficiaries = None\<rparr>"

definition legacy_policy :: PolicyCreate where
  "legacy_policy = \<lparr>
     PolicyCreate_plan_id = 2, PolicyCreate_start_date = new_year_2024,
     PolicyCreate_payment_frequency = ''monthly'', PolicyCreate_beneficiaries = None\<rparr>"

definition reopen_request :: ClaimUpdate where
  "reopen_request = \<lparr>
     ClaimUpdate_status = Some SUBMITTED, ClaimUpdate_approved_amount = None,
     ClaimUpdate_notes = None\<rparr>"

definition overpay_request :: ClaimUpdate where
  "overpay_request = \<lparr>
     ClaimUpdate_status = None, ClaimUpdate_approved_amount = Some (Finite 1000),
     ClaimUpdate_notes = None\<rparr>"

definition approve_request :: ClaimUpdate where
  "approve_request = \<lparr>
     ClaimUpdate_status = Some APPROVED, ClaimUpdate_approved_amount = Some (Finite 300),
     ClaimUpdate_notes = Some ''ok''\<rparr>"

definition sample_requests :: "request list" where
  "sample_requests =
     [ActivatePolicy 1 admin_user march_2024,
      CreatePolicy legacy_policy customer_user ''POL0000000009'' march_2024,
      CreateClaim sample_claim customer_user ''CLM0000000009'' march_2024,
      UpdateClaim 1 overpay_request agent_user march_2024 march_2024 march_2024,
      CreatePayment sample_payment customer_user ''PAY0000000009'' march_2024]"

text \<open>
  The sample session as it would be were \<open>User.claims\<close> to name its column, as
  \<open>Claim.user\<close> does: a session the program as shipped never has.
\<close>

definition sample_db_with_foreign_keys :: database where
  "sample_db_with_foreign_keys = sample_db\<lparr>registry :=
     relationships[1 := (relationships ! 1)
       \<lparr>rel_foreign_keys := Some [(ClaimModel, ''user_id'')]\<rparr>]\<rparr>"

definition nan_request :: ClaimUpdate where
  "nan_request = \<lparr>
     ClaimUpdate_status = None, ClaimUpdate_approved_amount = Some NaN,
     ClaimUpdate_notes = None\<rparr>"

section \<open>Proofs\<close>

lemmas calendar_defs = ymd2ord_def days_before_year_def days_before_month_def
  DAYS_BEFORE_MONTH_def DAYS_IN_MONTH_def is_leap_def MAXORDINAL_def Let_def

lemmas sample_defs = sample_db_def admin_user_def customer_user_def agent_user_def
  open_plan_def closed_plan_def pending_policy_def active_policy_def agent_policy_def
  paid_claim_def agent_claim_def customer_payment_def agent_payment_def
  sample_claim_def sample_payment_def sample_policy_def
  new_year_2024_def march_2024_def

subsection \<open>The mapping of the module does not configure\<close>

text \<open>
  \<open>User.claims\<close> links users and claims, which two foreign keys link:
  \<open>claims.user_id\<close> and \<open>claims.reviewed_by\<close>. The relationship names neither,
  so two are left and the mapping is refused. Every other relationship is left with one.
\<close>

lemma User_claims_join_columns:
  "rel_model (relationships ! 1) = UserModel
   \<and> rel_attribute (relationships ! 1) = ''claims''
   \<and> rel_foreign_keys (relationships ! 1) = None
   \<and> map fk_column (join_columns (relationships ! 1)) = [''user_id'', ''reviewed_by'']"
  by (simp add: relationships_def join_columns_def ForeignKeys_def)

lemma relationships_join_columns:
  "map (\<lambda>r. length (join_columns r)) relationships = [1, 2, 1, 1, 1, 1, 1, 1, 1, 1, 1, 1]"
  by (simp add: relationships_def join_columns_def ForeignKeys_def)

lemma relationships_do_not_configure: "configure_mappers relationships = Inl MapperError"
  by (simp add: configure_mappers_def relationships_def join_columns_def ForeignKeys_def)

text \<open>
  The other side of that link, \<open>Claim.user\<close>, names its column. Were
  \<open>User.claims\<close> to name it too, the mapping would configure.
\<close>

lemma relationships_configure_with_foreign_keys:
  "configure_mappers
     (relationships[1 := (relationships ! 1)
        \<lparr>rel_foreign_keys := Some [(ClaimModel, ''user_id'')]\<rparr>]) = Inr ()"
  by (simp add: configure_mappers_def relationships_def join_columns_def ForeignKeys_def)


lemma db_query_cases:
  "db_query db rows =
     (case configure_mappers (registry db) of Inl e \<Rightarrow> Inl e | Inr ok \<Rightarrow> Inr rows)"
  by (simp add: db_query_def)

lemma configure_mappers_cases:
  "configure_mappers rels = Inl MapperError \<or> configure_mappers rels = Inr ()"
  by (simp add: configure_mappers_def)

subsection \<open>Looking a row up by its key\<close>

lemma find_key: "find (\<lambda>x. key x = k) xs = Some x \<Longrightarrow> key x = k"
  by (induction xs) (auto split: if_splits)


lemma first_by_id_fits:
  "fits_int64 k \<Longrightarrow> first_by_id key k rows = Inr (find (\<lambda>row. key row = k) rows)"
  by (simp add: first_by_id_def bind_integer_def)

lemma assign_active_id [simp]: "Policy_id (assign_active now p) = Policy_id p"
  by (simp add: assign_active_def)

lemma assign_active_status [simp]: "Policy_status (assign_active now p) = ACTIVE"
  by (simp add: assign_active_def)

lemma assign_claim_update_id [simp]:
  "Claim_id (assign_claim_update upd u rt ut ot c) = Claim_id c"
  by (simp add: assign_claim_update_def Let_def split: option.splits)

lemma assign_claim_update_claim_amount [simp]:
  "Claim_claim_amount (assign_claim_update upd u rt ut ot c) = Claim_claim_amount c"
  by (simp add: assign_claim_update_def Let_def split: option.splits)


lemma assign_claim_update_status:
  "ClaimUpdate_status upd = Some s \<Longrightarrow>
   Claim_status (assign_claim_update upd u rt ut ot c) = s
   \<and> Claim_reviewed_by (assign_claim_update upd u rt ut ot c) = Some (User_id u)
   \<and> Claim_review_date (assign_claim_update upd u rt ut ot c) = Some rt"
  by (simp add: assign_claim_update_def Let_def split: option.splits)

subsection \<open>The two updating handlers, with and without a configured mapping\<close>






section \<open>Policy activation\<close>




section \<open>Claim review\<close>







text \<open>
  What the body of the handler does once it is reached: a review that asks for a status
  and succeeds returns, and stores under the claim's key, a claim with that status whose
  reviewer is the caller's id and whose review date is the handler's reading of the clock.
\<close>

lemma update_claim_records_reviewer:
  assumes "update_claim claim_id upd db u rt ut ot = Inr (db', c')"
    and "ClaimUpdate_status upd = Some s"
  shows "Claim_status c' = s
           \<and> Claim_reviewed_by c' = Some (User_id u)
           \<and> Claim_review_date c' = Some rt"
proof -
  from assms(1) obtain c where "c' = assign_claim_update upd u rt ut ot c"
    by (auto simp: update_claim_def get_current_active_user_def
        split: sum.splits option.splits if_splits)
  with assign_claim_update_status[OF assms(2), of u rt ut ot c] show ?thesis
    by simp
qed


section \<open>Claim submission\<close>

lemma add_claim_InrD:
  assumes "add_claim db row = Inr (db', c)"
  shows "claims db' = claims db @ [c] \<and> policies db' = policies db
           \<and> registry db' = registry db
           \<and> Claim_user_id c = Claim_user_id row"
  using assms by (auto simp: add_claim_def Let_def split: if_splits)





text \<open>
  What the body of the handler does once it is reached. A submission succeeds when the
  mapping configures, the caller is active, the policy exists, is \<open>active\<close> and is
  the caller's own or the caller is an administrator, and the drawn claim number is new;
  and a claim that is created is owned by the caller and appended to the table.
\<close>

lemma create_claim_succeeds:
  assumes "configure_mappers (registry db) = Inr ok" and "User_is_active u"
    and "fits_int64 (ClaimCreate_policy_id claim)"
    and "find (\<lambda>p. Policy_id p = ClaimCreate_policy_id claim) (policies db) = Some p"
    and "Policy_user_id p = User_id u \<or> User_role u = ADMIN"
    and "Policy_status p = ACTIVE"
    and "number \<notin> set (map Claim_claim_number (claims db))"
  shows "\<exists>db' c. create_claim claim db u number now = Inr (db', c)"
  using assms
  by (auto simp: create_claim_def get_current_active_user_def db_query_def first_by_id_fits
      add_claim_def Let_def)

lemma create_claim_owned_by_caller:
  assumes "create_claim claim db u number now = Inr (db', c)"
  shows "Claim_user_id c = User_id u \<and> claims db' = claims db @ [c]"
proof -
  from assms obtain row where
    "add_claim db row = Inr (db', c)" and "Claim_user_id row = User_id u"
    by (auto simp: create_claim_def get_current_active_user_def Let_def
        split: sum.splits option.splits if_splits)
  with add_claim_InrD[of db row db' c] show ?thesis by simp
qed


section \<open>Policy issuance\<close>

lemma add_policy_InrD:
  assumes "add_policy db row = Inr (db', p)"
  shows "policies db' = policies db @ [p] \<and> registry db' = registry db
           \<and> p = row\<lparr>Policy_id := next_id (map Policy_id (policies db))\<rparr>"
  using assms by (auto simp: add_policy_def Let_def split: if_splits)



lemma create_policy_issues:
  assumes "create_policy policy db u number now = Inr (db', p)"
  shows "\<exists>plan. find (\<lambda>pl. InsurancePlan_id pl = PolicyCreate_plan_id policy) (plans db)
                  = Some plan
           \<and> Policy_start_date p = PolicyCreate_start_date policy
           \<and> toordinal (Policy_end_date p) = toordinal (PolicyCreate_start_date policy) + 365
           \<and> microsecond_of_day (Policy_end_date p)
               = microsecond_of_day (PolicyCreate_start_date policy)
           \<and> Policy_premium_amount p =
               (if PolicyCreate_payment_frequency policy = ''monthly''
                then InsurancePlan_monthly_premium plan
                else InsurancePlan_annual_premium plan)
           \<and> Policy_status p = PENDING
           \<and> policies db' = policies db @ [p]"
proof -
  from assms obtain plan end_date row where
    plan: "find (\<lambda>pl. InsurancePlan_id pl = PolicyCreate_plan_id policy) (plans db) = Some plan"
    and e: "add_days (PolicyCreate_start_date policy) 365 = Inr end_date"
    and row: "add_policy db row = Inr (db', p)"
    and r1: "Policy_start_date row = PolicyCreate_start_date policy"
    and r2: "Policy_end_date row = end_date"
    and r3: "Policy_premium_amount row =
       (if PolicyCreate_payment_frequency policy = ''monthly''
        then InsurancePlan_monthly_premium plan else InsurancePlan_annual_premium plan)"
    and r4: "Policy_status row = PENDING"
    by (auto simp: create_policy_def get_current_active_user_def db_query_def
        first_by_id_def bind_integer_def Let_def
        split: sum.splits option.splits if_splits)
  from e have e': "end_date = (PolicyCreate_start_date policy)
      \<lparr>toordinal := toordinal (PolicyCreate_start_date policy) + 365\<rparr>"
    by (auto simp: add_days_def Let_def split: if_splits)
  from add_policy_InrD[OF row] have
    app: "policies db' = policies db @ [p]"
    and p: "p = row\<lparr>Policy_id := next_id (map Policy_id (policies db))\<rparr>"
    by auto
  have "Policy_start_date p = PolicyCreate_start_date policy"
    and "toordinal (Policy_end_date p) = toordinal (PolicyCreate_start_date policy) + 365"
    and "microsecond_of_day (Policy_end_date p)
           = microsecond_of_day (PolicyCreate_start_date policy)"
    and "Policy_premium_amount p =
       (if PolicyCreate_payment_frequency policy = ''monthly''
        then InsurancePlan_monthly_premium plan else InsurancePlan_annual_premium plan)"
    and "Policy_status p = PENDING"
    unfolding p using r1 r2 r3 r4 e' by simp_all
  with plan app show ?thesis by blast
qed

text \<open>
  The dates of the specification's scenario: 365 days on from 2024-01-01 is 2024-12-31,
  2024 being a leap year.
\<close>

lemma scenario_end_date:
  "ymd2ord 2024 1 1 + 365 = ymd2ord 2024 12 31
   \<and> ord2ymd (ymd2ord 2024 1 1 + 365) = (2024, 12, 31)"
  by (simp add: ord2ymd_def DI400Y_def DI100Y_def DI4Y_def calendar_defs)





section \<open>Listings\<close>

lemma set_offset_limit:
  assumes "offset_limit key skip limit rows = Inr xs"
  shows "set xs \<subseteq> set rows"
proof
  fix x
  assume "x \<in> set xs"
  with assms have "x \<in> set (drop (nat skip) (sort_key key rows))"
    by (auto simp: offset_limit_def Let_def bind_integer_def split: if_splits
        dest: in_set_takeD)
  then have "x \<in> set (sort_key key rows)"
    by (rule in_set_dropD)
  then show "x \<in> set rows"
    by simp
qed

text \<open>
  What the bodies of the listing handlers do once they are reached: for a caller who is
  not an administrator, every row that is returned has the caller's id as its
  \<open>user_id\<close>.
\<close>

lemma listings_show_own_rows_only:
  assumes "User_role u \<noteq> ADMIN"
  shows "(\<forall>ps. get_policies skip limit db u = Inr ps
            \<longrightarrow> (\<forall>p \<in> set ps. Policy_user_id p = User_id u))
       \<and> (\<forall>cs. get_claims skip limit status db u = Inr cs
            \<longrightarrow> (\<forall>c \<in> set cs. Claim_user_id c = User_id u))
       \<and> (\<forall>ps. get_payments skip limit db u = Inr ps
            \<longrightarrow> (\<forall>p \<in> set ps. Payment_user_id p = User_id u))"
proof (intro conjI allI impI ballI)
  fix ps p
  assume "get_policies skip limit db u = Inr ps" and p: "p \<in> set ps"
  with assms have "offset_limit Policy_id skip limit
      (filter (\<lambda>p. Policy_user_id p = User_id u) (policies db)) = Inr ps"
    by (auto simp: get_policies_def get_current_active_user_def db_query_def
        split: if_splits sum.splits)
  from set_offset_limit[OF this] p show "Policy_user_id p = User_id u"
    by auto
next
  fix cs c
  assume "get_claims skip limit status db u = Inr cs" and c: "c \<in> set cs"
  with assms have "offset_limit Claim_id skip limit
      (case status of
         None \<Rightarrow> filter (\<lambda>c. Claim_user_id c = User_id u) (claims db)
       | Some s \<Rightarrow> filter (\<lambda>c. Claim_status c = s)
           (filter (\<lambda>c. Claim_user_id c = User_id u) (claims db))) = Inr cs"
    by (auto simp: get_claims_def get_current_active_user_def db_query_def Let_def
        split: if_splits sum.splits)
  from set_offset_limit[OF this] c show "Claim_user_id c = User_id u"
    by (cases status) auto
next
  fix ps p
  assume "get_payments skip limit db u = Inr ps" and p: "p \<in> set ps"
  with assms have "offset_limit Payment_id skip limit
      (filter (\<lambda>p. Payment_user_id p = User_id u) (payments db)) = Inr ps"
    by (auto simp: get_payments_def get_current_active_user_def db_query_def
        split: if_splits sum.splits)
  from set_offset_limit[OF this] p show "Payment_user_id p = User_id u"
    by auto
qed


section \<open>What later requests leave of a policy\<close>

lemma same_but_status_refl: "same_but_status p p"
  by (simp add: same_but_status_def)

lemma same_but_status_trans:
  "same_but_status p q \<Longrightarrow> same_but_status q r \<Longrightarrow> same_but_status p r"
  unfolding same_but_status_def by (metis Policy.update_convs(7,12) Policy.surjective)

lemma same_but_status_assign_active: "same_but_status p (assign_active now p)"
  by (simp add: same_but_status_def assign_active_def)

lemma same_but_status_premium:
  "same_but_status p q \<Longrightarrow> Policy_premium_amount q = Policy_premium_amount p"
  unfolding same_but_status_def
  by (metis Policy.select_convs(8) Policy.surjective Policy.update_convs(7,12))

lemma kept_refl:
  "length xs \<le> length xs \<and> list_all2 same_but_status xs (take (length xs) xs)"
  by (simp add: list_all2_conv_all_nth same_but_status_refl)

lemma kept_trans:
  assumes "length xs \<le> length ys \<and> list_all2 same_but_status xs (take (length xs) ys)"
    and "length ys \<le> length zs \<and> list_all2 same_but_status ys (take (length ys) zs)"
  shows "length xs \<le> length zs \<and> list_all2 same_but_status xs (take (length xs) zs)"
proof -
  have "same_but_status (xs ! i) (zs ! i)" if "i < length xs" for i
  proof -
    from assms(1) that have "same_but_status (xs ! i) (ys ! i)"
      by (auto simp: list_all2_conv_all_nth)
    moreover from assms that have "same_but_status (ys ! i) (zs ! i)"
      by (auto simp: list_all2_conv_all_nth)
    ultimately show ?thesis by (rule same_but_status_trans)
  qed
  with assms show ?thesis
    by (auto simp: list_all2_conv_all_nth)
qed

lemma add_payment_InrD:
  assumes "add_payment db row = Inr (db', p)"
  shows "policies db' = policies db \<and> registry db' = registry db"
  using assms by (auto simp: add_payment_def Let_def split: if_splits)

lemma create_policy_policies:
  "policies (committed db (create_policy policy db u number now)) = policies db
   \<or> (\<exists>p. policies (committed db (create_policy policy db u number now)) = policies db @ [p])"
proof (cases "create_policy policy db u number now")
  case (Inl e)
  then show ?thesis by (simp add: committed_def)
next
  case (Inr res)
  then obtain db' p where run: "create_policy policy db u number now = Inr (db', p)"
    by (cases res) auto
  then obtain row where "add_policy db row = Inr (db', p)"
    by (auto simp: create_policy_def Let_def split: sum.splits option.splits)
  with add_policy_InrD[of db row db' p] run show ?thesis
    by (simp add: committed_def)
qed

lemma activate_policy_policies:
  "policies (committed db (activate_policy policy_id db u now)) = policies db
   \<or> policies (committed db (activate_policy policy_id db u now))
       = map (\<lambda>p. if Policy_id p = policy_id then assign_active now p else p) (policies db)"
  by (auto simp: committed_def activate_policy_def split: sum.splits option.splits)

lemma create_claim_policies:
  "policies (committed db (create_claim claim db u number now)) = policies db"
proof (cases "create_claim claim db u number now")
  case (Inl e)
  then show ?thesis by (simp add: committed_def)
next
  case (Inr res)
  then obtain db' c where run: "create_claim claim db u number now = Inr (db', c)"
    by (cases res) auto
  then obtain row where "add_claim db row = Inr (db', c)"
    by (auto simp: create_claim_def Let_def split: sum.splits option.splits if_splits)
  with add_claim_InrD[of db row db' c] run show ?thesis
    by (simp add: committed_def)
qed

lemma update_claim_policies:
  "policies (committed db (update_claim claim_id upd db u rt ut ot)) = policies db"
  by (auto simp: committed_def update_claim_def split: sum.splits option.splits if_splits)

lemma create_payment_policies:
  "policies (committed db (create_payment payment db u number now)) = policies db"
proof (cases "create_payment payment db u number now")
  case (Inl e)
  then show ?thesis by (simp add: committed_def)
next
  case (Inr res)
  then obtain db' c where run: "create_payment payment db u number now = Inr (db', c)"
    by (cases res) auto
  then obtain row where "add_payment db row = Inr (db', c)"
    by (auto simp: create_payment_def Let_def split: sum.splits option.splits if_splits)
  with add_payment_InrD[of db row db' c] run show ?thesis
    by (simp add: committed_def)
qed

lemma handle_request_kept:
  "length (policies db) \<le> length (policies (handle_request db r))
   \<and> list_all2 same_but_status (policies db)
       (take (length (policies db)) (policies (handle_request db r)))"
proof (cases r)
  case (CreatePolicy policy u number now)
  with create_policy_policies[of db policy u number now] show ?thesis
    by (auto simp: list_all2_conv_all_nth nth_append same_but_status_refl)
next
  case (ActivatePolicy policy_id u now)
  with activate_policy_policies[of db policy_id u now] show ?thesis
    by (auto simp: list_all2_conv_all_nth same_but_status_refl same_but_status_assign_active)
next
  case (CreateClaim claim u number now)
  then show ?thesis
    by (simp add: create_claim_policies list_all2_conv_all_nth same_but_status_refl)
next
  case (UpdateClaim claim_id upd u rt ut ot)
  then show ?thesis
    by (simp add: update_claim_policies list_all2_conv_all_nth same_but_status_refl)
next
  case (CreatePayment payment u number now)
  then show ?thesis
    by (simp add: create_payment_policies list_all2_conv_all_nth same_but_status_refl)
qed

lemma serve_kept:
  "length (policies db) \<le> length (policies (serve db rs))
   \<and> list_all2 same_but_status (policies db)
       (take (length (policies db)) (policies (serve db rs)))"
proof (induction rs arbitrary: db)
  case Nil
  show ?case using kept_refl[of "policies db"] by simp
next
  case (Cons r rs)
  from kept_trans[OF handle_request_kept[of db r] Cons.IH[of "handle_request db r"]]
  show ?case by simp
qed

text \<open>
  Claim C7. Whatever requests the system serves after a policy was issued (activations,
  claim submissions, claim reviews, payments, and further issuances), and whether or not
  the mapping configures, the policies that were in the table are still there, in their
  places, and each agrees with what it was on every column but the status and the time
  of the last update. In particular, each has the premium amount it was issued with.
\<close>

theorem premium_amount_fixed_at_issuance:
  "length (policies db) \<le> length (policies (serve db rs))
   \<and> list_all2 same_but_status (policies db)
       (take (length (policies db)) (policies (serve db rs)))
   \<and> map Policy_premium_amount (take (length (policies db)) (policies (serve db rs)))
       = map Policy_premium_amount (policies db)"
proof -
  have kept: "length (policies db) \<le> length (policies (serve db rs))
      \<and> list_all2 same_but_status (policies db)
          (take (length (policies db)) (policies (serve db rs)))"
    by (rule serve_kept)
  then have "map Policy_premium_amount (take (length (policies db)) (policies (serve db rs)))
      = map Policy_premium_amount (policies db)"
    by (auto simp: list_all2_conv_all_nth same_but_status_premium intro!: nth_equalityI)
  with kept show ?thesis by simp
qed

text \<open>
  The theorem on a run over the sample session: an activation of the pending policy 1,
  an issuance, a claim submission, a review and a payment. The three policies keep their
  premiums of 200, 2200 and 200.
\<close>

theorem premium_amount_fixed_at_issuance_witness:
  "length sample_requests = 5
   \<and> map Policy_premium_amount (policies sample_db) = [Finite 200, Finite 2200, Finite 200]
   \<and> 3 \<le> length (policies (serve sample_db sample_requests))
   \<and> map Policy_premium_amount (take 3 (policies (serve sample_db sample_requests)))
       = [Finite 200, Finite 2200, Finite 200]"
proof -
  have a: "map Policy_premium_amount (policies sample_db)
      = [Finite 200, Finite 2200, Finite 200]"
    "length (policies sample_db) = 3" "length sample_requests = 5"
    by (simp_all add: sample_defs sample_requests_def)
  from premium_amount_fixed_at_issuance[of sample_db sample_requests] a
  show ?thesis by simp
qed

section \<open>The program as shipped\<close>

text \<open>
  With the registry of the module, the query that opens every handler raises. So no
  request changes the session, and every endpoint answers an active caller (for the
  activation, an active administrator) with the error of the mapping.
\<close>

theorem module_mapping_is_refused:
  "rel_model (relationships ! 1) = UserModel
   \<and> rel_attribute (relationships ! 1) = ''claims''
   \<and> rel_target (relationships ! 1) = ClaimModel
   \<and> rel_foreign_keys (relationships ! 1) = None
   \<and> map fk_column (join_columns (relationships ! 1)) = [''user_id'', ''reviewed_by'']
   \<and> configure_mappers relationships = Inl MapperError"
  using User_claims_join_columns relationships_do_not_configure
  by (simp add: relationships_def)

lemma handle_request_shipped:
  assumes "configure_mappers (registry db) = Inl e"
  shows "handle_request db r = db"
  using assms
  by (cases r)
    (auto simp: committed_def create_policy_def activate_policy_def create_claim_def
      update_claim_def create_payment_def db_query_def split: sum.splits)

theorem nothing_is_served_as_shipped:
  assumes "registry db = relationships"
  shows "serve db rs = db"
proof (induction rs)
  case Nil
  show ?case by simp
next
  case (Cons r rs)
  from assms have "configure_mappers (registry db) = Inl MapperError"
    by (simp add: relationships_do_not_configure)
  then have "handle_request db r = db"
    by (rule handle_request_shipped)
  with Cons show ?case by simp
qed

theorem nothing_is_served_as_shipped_witness:
  "registry sample_db = relationships \<and> serve sample_db sample_requests = sample_db"
proof -
  have r: "registry sample_db = relationships"
    by (simp add: sample_db_def)
  from nothing_is_served_as_shipped[OF r, of sample_requests] r show ?thesis
    by simp
qed

theorem handlers_raise_as_shipped:
  assumes "registry db = relationships" and "User_is_active u"
  shows "create_policy policy db u number now = Inl MapperError
       \<and> create_claim claim db u number now = Inl MapperError
       \<and> update_claim claim_id upd db u rt ut ot = Inl MapperError
       \<and> create_payment payment db u number now = Inl MapperError
       \<and> get_policies skip limit db u = Inl MapperError
       \<and> get_claims skip limit status db u = Inl MapperError
       \<and> get_payments skip limit db u = Inl MapperError
       \<and> get_plans skip limit db = Inl MapperError
       \<and> activate_policy policy_id db (u\<lparr>User_role := ADMIN\<rparr>) now = Inl MapperError"
  using assms
  by (simp add: create_policy_def create_claim_def update_claim_def create_payment_def
      get_policies_def get_claims_def get_payments_def get_plans_def activate_policy_def
      check_admin_def get_current_active_user_def db_query_def relationships_do_not_configure)

theorem handlers_raise_as_shipped_witness:
  "registry sample_db = relationships \<and> User_is_active customer_user
   \<and> create_policy sample_policy sample_db customer_user ''POL0000000009'' march_2024
       = Inl MapperError
   \<and> get_plans 0 100 sample_db = Inl MapperError"
proof -
  have r: "registry sample_db = relationships" and a: "User_is_active customer_user"
    by (simp_all add: sample_db_def customer_user_def)
  from handlers_raise_as_shipped[OF r a, where policy = sample_policy
      and number = "''POL0000000009''" and now = march_2024 and skip = 0 and limit = 100] r a
  show ?thesis by simp
qed

section \<open>The handlers' bodies, were the mapping to configure\<close>

text \<open>
  None of the following is a run of the program as shipped: each is a run on the sample
  session with the one relationship given its foreign key, and shows what the body of a
  handler does where the theorems above say that it succeeds.
\<close>

lemma sample_db_with_foreign_keys_registry:
  "configure_mappers (registry sample_db_with_foreign_keys) = Inr ()"
  unfolding sample_db_with_foreign_keys_def
  using relationships_configure_with_foreign_keys by simp

lemmas body_defs = db_query_def sample_db_with_foreign_keys_registry
  first_by_id_def bind_integer_def fits_int64_def offset_limit_def
  get_current_active_user_def check_admin_def

lemma sample_db_with_foreign_keys_tables:
  "plans sample_db_with_foreign_keys = [open_plan, closed_plan]
   \<and> policies sample_db_with_foreign_keys = [pending_policy, active_policy, agent_policy]
   \<and> claims sample_db_with_foreign_keys = [paid_claim, agent_claim]
   \<and> payments sample_db_with_foreign_keys = [customer_payment, agent_payment]"
  by (simp add: sample_db_with_foreign_keys_def sample_db_def)

lemma body_activate_active_policy:
  "\<not> isl (activate_policy 2 sample_db_with_foreign_keys admin_user march_2024)
   \<and> snd (projr (activate_policy 2 sample_db_with_foreign_keys admin_user march_2024))
       = active_policy
   \<and> map Policy_status (policies (fst (projr
         (activate_policy 1 sample_db_with_foreign_keys admin_user march_2024))))
       = [ACTIVE, ACTIVE, ACTIVE]
   \<and> Policy_updated_at (snd (projr
         (activate_policy 1 sample_db_with_foreign_keys admin_user march_2024))) = march_2024"
  by (simp add: activate_policy_def body_defs sample_db_with_foreign_keys_tables
      assign_active_def admin_user_def pending_policy_def active_policy_def agent_policy_def)

lemma body_update_paid_claim:
  "Claim_status (snd (projr (update_claim 1 reopen_request sample_db_with_foreign_keys
       admin_user march_2024 march_2024 march_2024))) = SUBMITTED
   \<and> Claim_approved_amount (snd (projr (update_claim 1 overpay_request
       sample_db_with_foreign_keys agent_user march_2024 march_2024 march_2024)))
       = Some (Finite 1000)
   \<and> Claim_approved_amount (snd (projr (update_claim 1 nan_request
       sample_db_with_foreign_keys agent_user march_2024 march_2024 march_2024))) = None
   \<and> Claim_reviewed_by (snd (projr (update_claim 2 approve_request
       sample_db_with_foreign_keys agent_user march_2024 march_2024 march_2024))) = Some 3
   \<and> Claim_review_date (snd (projr (update_claim 2 approve_request
       sample_db_with_foreign_keys agent_user march_2024 march_2024 march_2024)))
       = Some march_2024"
  by (simp add: update_claim_def body_defs sample_db_with_foreign_keys_tables
      assign_claim_update_def claim_update_changes_def store_float_def
      reopen_request_def overpay_request_def nan_request_def approve_request_def
      admin_user_def agent_user_def paid_claim_def agent_claim_def)

lemma body_update_claim_onupdate:
  "Claim_updated_at paid_claim = new_year_2024
   \<and> Claim_updated_at (snd (projr (update_claim 1 reopen_request sample_db_with_foreign_keys
       admin_user march_2024 new_year_2024 march_2024))) = march_2024
   \<and> Claim_updated_at (snd (projr (update_claim 1 reopen_request sample_db_with_foreign_keys
       admin_user new_year_2024 march_2024 new_year_2024))) = march_2024"
  by (simp add: update_claim_def body_defs sample_db_with_foreign_keys_tables
      assign_claim_update_def claim_update_changes_def
      reopen_request_def admin_user_def paid_claim_def agent_claim_def
      new_year_2024_def march_2024_def calendar_defs)

lemma body_create_claim:
  "create_claim sample_claim sample_db_with_foreign_keys customer_user ''CLM0000000009''
       march_2024 = Inl (HTTPException 400 ''Policy is not active'')
   \<and> create_claim sample_claim sample_db_with_foreign_keys agent_user ''CLM0000000009''
       march_2024 = Inl (HTTPException 403 ''Not authorized to create claim for this policy'')
   \<and> Claim_user_id (snd (projr (create_claim (sample_claim\<lparr>ClaimCreate_policy_id := 2\<rparr>)
       sample_db_with_foreign_keys admin_user ''CLM0000000009'' march_2024))) = 1
   \<and> Claim_id (snd (projr (create_claim (sample_claim\<lparr>ClaimCreate_policy_id := 2\<rparr>)
       sample_db_with_foreign_keys admin_user ''CLM0000000009'' march_2024))) = 3"
  by (simp add: create_claim_def body_defs sample_db_with_foreign_keys_tables
      add_claim_def next_id_def Let_def sample_claim_def
      admin_user_def agent_user_def customer_user_def
      pending_policy_def active_policy_def agent_policy_def paid_claim_def agent_claim_def)

lemma body_create_policy:
  "Policy_end_date (snd (projr (create_policy sample_policy sample_db_with_foreign_keys
       customer_user ''POL0000000009'' march_2024)))
       = \<lparr>toordinal = ymd2ord 2024 12 31, microsecond_of_day = 0\<rparr>
   \<and> Policy_premium_amount (snd (projr (create_policy sample_policy
       sample_db_with_foreign_keys customer_user ''POL0000000009'' march_2024))) = Finite 200
   \<and> Policy_premium_amount (snd (projr (create_policy
       (sample_policy\<lparr>PolicyCreate_payment_frequency := ''annual''\<rparr>)
       sample_db_with_foreign_keys customer_user ''POL0000000009'' march_2024))) = Finite 2200
   \<and> Policy_status (snd (projr (create_policy sample_policy sample_db_with_foreign_keys
       customer_user ''POL0000000009'' march_2024))) = PENDING
   \<and> Policy_plan_id (snd (projr (create_policy legacy_policy sample_db_with_foreign_keys
       customer_user ''POL0000000009'' march_2024))) = 2
   \<and> create_policy (sample_policy\<lparr>PolicyCreate_plan_id := 7\<rparr>) sample_db_with_foreign_keys
       customer_user ''POL0000000009'' march_2024
       = Inl (HTTPException 404 ''Insurance plan not found'')"
  by (simp add: create_policy_def body_defs sample_db_with_foreign_keys_tables
      add_days_def add_policy_def next_id_def sample_policy_def legacy_policy_def
      customer_user_def open_plan_def closed_plan_def
      pending_policy_def active_policy_def agent_policy_def
      new_year_2024_def calendar_defs)

lemma body_listings:
  "map_sum id (map Policy_id) (get_policies 0 100 sample_db_with_foreign_keys customer_user)
       = Inr [1, 2]
   \<and> map_sum id (map Claim_id) (get_claims 0 100 None sample_db_with_foreign_keys
       customer_user) = Inr [1]
   \<and> map_sum id (map Payment_id) (get_payments 0 100 sample_db_with_foreign_keys
       customer_user) = Inr [1]
   \<and> map_sum id (map Policy_id) (get_policies 1 1 sample_db_with_foreign_keys admin_user)
       = Inr [2]
   \<and> map_sum id (map InsurancePlan_id) (get_plans 0 100 sample_db_with_foreign_keys)
       = Inr [1]
   \<and> get_policies 0 (2 ^ 63) sample_db_with_foreign_keys admin_user = Inl OverflowError"
  by (simp add: get_policies_def get_claims_def get_payments_def get_plans_def body_defs
      sample_db_with_foreign_keys_tables admin_user_def customer_user_def
      open_plan_def closed_plan_def pending_policy_def active_policy_def agent_policy_def
      paid_claim_def agent_claim_def customer_payment_def agent_payment_def)

end
